theory Spec2Isabelle
  imports Complex_Main "HOL-Library.Word" "HOL-Library.Multiset"
begin

unbundle bit_operations_syntax

section \<open>samtom4: converting SAM records to blasr M4 rows\<close>

text \<open>
  The development embeds \<^verbatim>\<open>main\<close> of \<^verbatim>\<open>utils/SamToM4.cpp\<close>. The program reads a
  reference FASTA file and the header of a SAM file, binds the short reference names of
  the header to the full titles of the FASTA file, and then converts the SAM records one
  by one into rows of the M4 format.

  \<^verbatim>\<open>main\<close> calls into the alignment library (\<^verbatim>\<open>alignment/...\<close>, \<^verbatim>\<open>pbdata/...\<close>), whose
  sources are not part of \<^verbatim>\<open>utils/SamToM4.cpp\<close>. Those calls are parameters of the model,
  collected in the record \<open>library\<close>; what \<^verbatim>\<open>main\<close> itself does with their results is
  translated statement by statement.
\<close>

subsection \<open>Data\<close>

text \<open>\<^verbatim>\<open>FASTASequence\<close>: \<^verbatim>\<open>main\<close> reads the \<^verbatim>\<open>title\<close> only; the bases are for the library.\<close>

record FASTASequence =
  title :: string
  seq :: string

text \<open>
  \<^verbatim>\<open>SAMFullReferenceSequence\<close>, one \<^verbatim>\<open>@SQ\<close> line of the header. \<^verbatim>\<open>GetSequenceName()\<close>
  is read as the accessor of the field \<^verbatim>\<open>sequenceName\<close> that line 120 assigns.
\<close>

record SAMFullReferenceSequence =
  sequenceName :: string
  seqLength :: nat

text \<open>
  \<^verbatim>\<open>SAMAlignment\<close>, one record of the SAM file: the fields \<^verbatim>\<open>main\<close> reads (\<^verbatim>\<open>rName\<close>,
  \<^verbatim>\<open>cigar\<close>, \<^verbatim>\<open>as\<close>, \<^verbatim>\<open>mapQV\<close>, \<^verbatim>\<open>xq\<close>) and the ones the candidate builder needs for the
  orientation (\<^verbatim>\<open>flag\<close>) and the row (\<^verbatim>\<open>qName\<close>, \<^verbatim>\<open>pos\<close>, \<^verbatim>\<open>seq\<close>). The numeric fields
  are declared in a header outside this file; they are integers here, and an assignment
  between a record field and a candidate field is a copy.
\<close>

record SAMAlignment =
  qName :: string
  flag :: "32 word"
  rName :: string
  pos :: nat
  mapQV :: int
  cigar :: string
  seq :: string
  as :: int
  xq :: int

datatype strand = Forward | Reverse

text \<open>
  The statistics of an alignment (match, mismatch, insertion and deletion counts, percent
  identity and score) and the \<^verbatim>\<open>AlignmentCandidate\<close> that carries them next to the names,
  the strands, the aligned sequences and the lengths. The percent identity is a rational
  number; it is \<open>None\<close> as long as no quotient has been computed.
\<close>

record AlignmentStats =
  nMatch :: nat
  nMismatch :: nat
  nIns :: nat
  nDel :: nat
  pctSimilarity :: "rat option"
  score :: int

record AlignmentCandidate = AlignmentStats +
  qName :: string
  tName :: string
  qStrand :: strand
  tStrand :: strand
  qAlignedSeq :: string
  tAlignedSeq :: string
  qLength :: int
  tLength :: int
  mapQV :: int

text \<open>
  The calls that leave \<^verbatim>\<open>utils/SamToM4.cpp\<close>, with the arguments of the call sites:
  \<^item> \<^verbatim>\<open>alignmentSet.RearrangeReferences(references)\<close> (line 101), from the FASTA records and
    the header's references to the rearranged references;
  \<^item> \<^verbatim>\<open>SAMAlignmentsToCandidates(samAlignment, references, refNameToIndex,
    convertedAlignments, parseSmrtTitle, keepRefAsForward)\<close> (line 182), returning the
    vector it fills;
  \<^item> \<^verbatim>\<open>ComputeAlignmentStats(alignment, qAlignedSeq.seq, tAlignedSeq.seq, distScoreFn)\<close>
    (line 194), which writes into \<^verbatim>\<open>alignment\<close>: the model follows the contract
    \<open>Compute(alignedQuery, alignedTarget) \<rightarrow> AlignmentStats\<close> and has the call return the
    statistics that are then stored in the candidate;
  \<^item> the default-constructed \<^verbatim>\<open>distScoreFn\<close> (line 148).
\<close>

record library =
  RearrangeReferences ::
    "FASTASequence list \<Rightarrow> SAMFullReferenceSequence list \<Rightarrow> SAMFullReferenceSequence list"
  SAMAlignmentsToCandidates ::
    "SAMAlignment \<Rightarrow> FASTASequence list \<Rightarrow> (string \<rightharpoonup> nat) \<Rightarrow> bool \<Rightarrow> bool
       \<Rightarrow> AlignmentCandidate list"
  ComputeAlignmentStats ::
    "AlignmentCandidate \<Rightarrow> string \<Rightarrow> string \<Rightarrow> (char \<Rightarrow> char \<Rightarrow> int) \<Rightarrow> AlignmentStats"
  distScoreFn :: "char \<Rightarrow> char \<Rightarrow> int"

text \<open>The two flags of the command line that \<^verbatim>\<open>main\<close> branches on.\<close>

record options =
  printHeader :: bool
  useShortRefName :: bool

text \<open>
  What the run does to the outside, in the order of the calls: a line on \<^verbatim>\<open>std::cout\<close>,
  \<^verbatim>\<open>IntervalOutput::PrintHeader\<close>, and \<^verbatim>\<open>IntervalOutput::PrintFromSAM\<close> with the candidate
  it is handed. (With an output file name the last two go to the file, without one to
  \<^verbatim>\<open>std::cout\<close> as well.)
\<close>

datatype event = Cout string | PrintHeader | PrintFromSAM AlignmentCandidate

text \<open>
  How the process ends: \<^verbatim>\<open>return 0\<close>, \<^verbatim>\<open>std::exit(EXIT_FAILURE)\<close> (lines 117 and 161), the
  failed \<^verbatim>\<open>assert\<close> of line 109, and the read of \<^verbatim>\<open>convertedAlignments[0]\<close> in an empty
  vector (line 192), after which the behaviour is undefined.
\<close>

datatype exit_status = Returned | ExitFailure | AssertionFailed | OutOfRange

record session =
  out :: "event list"
  alignIndex :: nat

text \<open>The tables \<^verbatim>\<open>main\<close> has built when the loop over the records starts.\<close>

record catalog =
  references :: "FASTASequence list"
  shortRefNameToFull :: "string \<rightharpoonup> string"
  refNameToIndex :: "string \<rightharpoonup> nat"

subsection \<open>Messages\<close>

definition duplicate_reference_error :: "string \<Rightarrow> string" where
  "duplicate_reference_error shortRefName =
     ''ERROR, Found more than one reference '' @ shortRefName @ ''in sam header''"

definition reference_not_found_error :: "string \<Rightarrow> string" where
  "reference_not_found_error name =
     ''ERROR, Could not find '' @ name @ '' in the reference repository.''"

definition padding_warning :: string where
  "padding_warning = ''WARNING. Could not process sam record with 'P' in its cigar string.''"

definition multiple_segments_warning :: string where
  "multiple_segments_warning = ''WARNING. Ignore an alignment which has multiple segments.''"

subsection \<open>Binding short names to full titles (lines 107 to 129)\<close>

text \<open>
  The loop of lines 111 to 121 walks \<^verbatim>\<open>references\<close> and \<^verbatim>\<open>alignmentSet.references\<close> by one
  index; the \<^verbatim>\<open>assert\<close> before it makes them equally long, so the model walks the list of
  pairs. \<open>Inl\<close> is the exit of line 117, with the name that was found twice; \<open>Inr\<close>
  carries the map and the header's references with their names overwritten (line 120).
\<close>

fun bind_names ::
  "(FASTASequence \<times> SAMFullReferenceSequence) list \<Rightarrow> (string \<rightharpoonup> string)
     \<Rightarrow> string + ((string \<rightharpoonup> string) \<times> SAMFullReferenceSequence list)" where
  "bind_names [] m = Inr (m, [])"
| "bind_names ((f, h) # ps) m =
     (let shortRefName = sequenceName h; fullRefName = title f in
      if m shortRefName \<noteq> None then Inl shortRefName
      else case bind_names ps (m(shortRefName \<mapsto> fullRefName)) of
             Inl e \<Rightarrow> Inl e
           | Inr (m', hs) \<Rightarrow> Inr (m', h\<lparr>sequenceName := fullRefName\<rparr> # hs))"

text \<open>Lines 110 to 122: the binding runs only without \<^verbatim>\<open>-useShortRefName\<close>.\<close>

definition resolve_names ::
  "bool \<Rightarrow> FASTASequence list \<Rightarrow> SAMFullReferenceSequence list
     \<Rightarrow> string + ((string \<rightharpoonup> string) \<times> SAMFullReferenceSequence list)" where
  "resolve_names useShort refs hdr =
     (if \<not> useShort then bind_names (zip refs hdr) Map.empty else Inr (Map.empty, hdr))"

text \<open>
  Lines 125 to 129, with \<open>n\<close> the number of FASTA records: a later reference of the same
  name overwrites the index. After the \<^verbatim>\<open>assert\<close> the header has \<open>n\<close> references, so
  every \<open>hdr ! i\<close> is in range.
\<close>

definition index_names :: "nat \<Rightarrow> SAMFullReferenceSequence list \<Rightarrow> (string \<rightharpoonup> nat)" where
  "index_names n hdr = fold (\<lambda>i m. m(sequenceName (hdr ! i) \<mapsto> i)) [0..<n] Map.empty"

subsection \<open>One record (lines 151 to 213)\<close>

text \<open>Lines 198 to 208: the fields taken over from the SAM record.\<close>

definition reconcile_fields :: "SAMAlignment \<Rightarrow> AlignmentCandidate \<Rightarrow> AlignmentCandidate" where
  "reconcile_fields samAlignment alignment =
     (let a = alignment\<lparr>score := as samAlignment, mapQV := SAMAlignment.mapQV samAlignment\<rparr>
      in if xq samAlignment \<noteq> 0 then a\<lparr>qLength := xq samAlignment\<rparr> else a)"

text \<open>Line 194, with the statistics stored in the candidate.\<close>

definition store_stats :: "AlignmentStats \<Rightarrow> AlignmentCandidate \<Rightarrow> AlignmentCandidate" where
  "store_stats st alignment =
     alignment\<lparr>nMatch := nMatch st, nMismatch := nMismatch st, nIns := nIns st,
               nDel := nDel st, pctSimilarity := pctSimilarity st, score := score st\<rparr>"

text \<open>
  Lines 155 to 164: the record after the lookup, or \<open>None\<close> where line 161 exits.
\<close>

definition lookup_reference ::
  "bool \<Rightarrow> (string \<rightharpoonup> string) \<Rightarrow> SAMAlignment \<Rightarrow> SAMAlignment option" where
  "lookup_reference useShort m samAlignment =
     (if \<not> useShort then
        (case m (rName samAlignment) of
           None \<Rightarrow> None
         | Some fullRefName \<Rightarrow> Some (samAlignment\<lparr>rName := fullRefName\<rparr>))
      else Some samAlignment)"

text \<open>
  What one pass through the loop body does: \<open>Continue\<close> with the lines written before a
  \<^verbatim>\<open>continue\<close>, \<open>Printed\<close> with the candidate handed to \<^verbatim>\<open>PrintFromSAM\<close>, \<open>Exit\<close> with
  the line written before \<^verbatim>\<open>std::exit\<close>, and \<open>Undefined\<close> for the read of element 0 of
  an empty vector.
\<close>

datatype step = Continue "string list" | Printed AlignmentCandidate | Exit string | Undefined

text \<open>
  Lines 192 to 210, for the element \<^verbatim>\<open>convertedAlignments[0]\<close>: the statistics, then the
  fields of the SAM record; the result is what \<^verbatim>\<open>PrintFromSAM\<close> receives. Line 212
  releases the buffers of the candidate after the call, which nothing observes.
\<close>

definition finish_alignment ::
  "library \<Rightarrow> SAMAlignment \<Rightarrow> AlignmentCandidate \<Rightarrow> AlignmentCandidate" where
  "finish_alignment lib sam alignment =
     reconcile_fields sam
       (store_stats
          (ComputeAlignmentStats lib alignment (qAlignedSeq alignment) (tAlignedSeq alignment)
             (distScoreFn lib))
          alignment)"

text \<open>
  Lines 166 to 213, for a record that has passed the lookup. \<^verbatim>\<open>parseSmrtTitle\<close> is
  \<^verbatim>\<open>false\<close> from line 43 on, and line 180 sets \<^verbatim>\<open>keepRefAsForward\<close> to \<^verbatim>\<open>false\<close>.
\<close>

definition convert_alignment :: "library \<Rightarrow> catalog \<Rightarrow> SAMAlignment \<Rightarrow> step" where
  "convert_alignment lib cat sam =
     (if CHR ''P'' \<in> set (cigar sam) then Continue [padding_warning]
      else
        let parseSmrtTitle = False;
            keepRefAsForward = False;
            convertedAlignments =
              SAMAlignmentsToCandidates lib sam (references cat) (refNameToIndex cat)
                parseSmrtTitle keepRefAsForward
        in if length convertedAlignments > 1 then Continue [multiple_segments_warning]
           else (case convertedAlignments of
                   [] \<Rightarrow> Undefined
                 | alignment # _ \<Rightarrow> Printed (finish_alignment lib sam alignment)))"

definition process_record :: "bool \<Rightarrow> library \<Rightarrow> catalog \<Rightarrow> SAMAlignment \<Rightarrow> step" where
  "process_record useShort lib cat samAlignment =
     (if rName samAlignment = ''*'' then Continue []
      else (case lookup_reference useShort (shortRefNameToFull cat) samAlignment of
              None \<Rightarrow> Exit (reference_not_found_error (rName samAlignment))
            | Some sam \<Rightarrow> convert_alignment lib cat sam))"

subsection \<open>The loop and the program\<close>

text \<open>
  The \<^verbatim>\<open>while\<close> loop of line 150 over the records \<^verbatim>\<open>GetNextAlignment\<close> delivers, each
  read into the variable \<^verbatim>\<open>samAlignment\<close> anew. The tables do not change in the loop; the
  session collects the output and the counter \<^verbatim>\<open>alignIndex\<close> of line 214, which counts
  the records that reach the end of the loop body.
\<close>

fun convert_records ::
  "bool \<Rightarrow> library \<Rightarrow> catalog \<Rightarrow> session \<Rightarrow> SAMAlignment list \<Rightarrow> exit_status \<times> session" where
  "convert_records useShort lib cat s [] = (Returned, s)"
| "convert_records useShort lib cat s (r # rs) =
     (case process_record useShort lib cat r of
        Continue msgs \<Rightarrow>
          convert_records useShort lib cat (s\<lparr>out := out s @ map Cout msgs\<rparr>) rs
      | Printed alignment \<Rightarrow>
          convert_records useShort lib cat
            (s\<lparr>out := out s @ [PrintFromSAM alignment], alignIndex := Suc (alignIndex s)\<rparr>) rs
      | Exit msg \<Rightarrow> (ExitFailure, s\<lparr>out := out s @ [Cout msg]\<rparr>)
      | Undefined \<Rightarrow> (OutOfRange, s))"

text \<open>
  The tables at line 150, from the FASTA records, the map of lines 107 to 122 and the
  header's references as those lines leave them.
\<close>

definition tables ::
  "FASTASequence list \<Rightarrow> (string \<rightharpoonup> string) \<Rightarrow> SAMFullReferenceSequence list \<Rightarrow> catalog" where
  "tables refs m hdr =
     \<lparr>references = refs, shortRefNameToFull = m,
      refNameToIndex = index_names (length refs) hdr\<rparr>"

text \<open>
  \<^verbatim>\<open>main\<close> from line 89 on, as a function of the two flags, the FASTA records
  (\<^verbatim>\<open>ReadAllSequences\<close>), the references of the SAM header (\<^verbatim>\<open>ReadHeader\<close>) and the
  records \<^verbatim>\<open>GetNextAlignment\<close> delivers. Parsing the command line and opening the files
  come before and are not modelled.
\<close>

definition main ::
  "options \<Rightarrow> library \<Rightarrow> FASTASequence list \<Rightarrow> SAMFullReferenceSequence list
     \<Rightarrow> SAMAlignment list \<Rightarrow> exit_status \<times> session" where
  "main opts lib refs header alignments =
     (let hdr = RearrangeReferences lib refs header;
          start = \<lparr>out = [], alignIndex = 0\<rparr>
      in if length refs \<noteq> length hdr then (AssertionFailed, start)
         else case resolve_names (useShortRefName opts) refs hdr of
           Inl shortRefName \<Rightarrow>
             (ExitFailure, start\<lparr>out := [Cout (duplicate_reference_error shortRefName)]\<rparr>)
         | Inr (m, hdr') \<Rightarrow>
             convert_records (useShortRefName opts) lib (tables refs m hdr')
               (start\<lparr>out := (if printHeader opts then [PrintHeader] else [])\<rparr>)
               alignments)"

subsection \<open>The library, as far as the specification describes it\<close>

text \<open>
  Modelled from the spec: \<^verbatim>\<open>ComputeAlignmentStats\<close> is defined in
  \<^verbatim>\<open>alignment/algorithms/alignment/AlignmentUtils.hpp\<close>, which is not among the sources.
  The specification has the Statistics Engine walk the two aligned sequences position by
  position, classify each column as match, mismatch, insertion (gap in target) or deletion
  (gap in query), and compute the percent identity as matches divided by matches plus
  mismatches plus insertions plus deletions, expressed as a percentage. The quotient has
  no value for an alignment without columns; the model returns \<open>None\<close> there. The
  score is the placeholder of the specification: the sum of the score function over the
  columns. A gap is the character \<^verbatim>\<open>-\<close>.
\<close>

definition gap :: char where
  "gap = CHR ''-''"

datatype column = Match | Mismatch | Insertion | Deletion

definition classify :: "char \<Rightarrow> char \<Rightarrow> column" where
  "classify q t =
     (if t = gap then Insertion
      else if q = gap then Deletion
      else if q = t then Match
      else Mismatch)"

definition columns :: "string \<Rightarrow> string \<Rightarrow> column list" where
  "columns qSeq tSeq = map (\<lambda>(q, t). classify q t) (zip qSeq tSeq)"

definition percent_identity :: "nat \<Rightarrow> nat \<Rightarrow> nat \<Rightarrow> nat \<Rightarrow> rat option" where
  "percent_identity m mm i d =
     (if m + mm + i + d = 0 then None
      else Some (100 * of_nat m / of_nat (m + mm + i + d)))"

definition ComputeAlignmentStats_spec ::
  "AlignmentCandidate \<Rightarrow> string \<Rightarrow> string \<Rightarrow> (char \<Rightarrow> char \<Rightarrow> int) \<Rightarrow> AlignmentStats" where
  "ComputeAlignmentStats_spec alignment qSeq tSeq scoreFn =
     (let cols = columns qSeq tSeq;
          m = count_list cols Match;
          mm = count_list cols Mismatch;
          i = count_list cols Insertion;
          d = count_list cols Deletion
      in \<lparr>nMatch = m, nMismatch = mm, nIns = i, nDel = d,
          pctSimilarity = percent_identity m mm i d,
          score = sum_list (map (\<lambda>(q, t). scoreFn q t) (zip qSeq tSeq))\<rparr>)"

text \<open>
  Modelled from the spec: \<^verbatim>\<open>IsReverseComplement\<close> (named in the comment of lines 175 to
  179) reads the reverse-complement flag bit of a SAM record, \<^verbatim>\<open>0x10\<close>.
\<close>

definition IsReverseComplement :: "32 word \<Rightarrow> bool" where
  "IsReverseComplement f = (f AND 0x10 \<noteq> 0)"

text \<open>
  Modelled from the spec: the orientation rule of the Candidate Builder
  (\<^verbatim>\<open>SAMAlignmentsToCandidates\<close>, declared in
  \<^verbatim>\<open>alignment/datastructures/alignment/SAMToAlignmentCandidateAdapter.hpp\<close>, not among the
  sources), as the pair of query strand and target strand. With \<^verbatim>\<open>keepRefAsForward\<close> the
  reference is normalised to forward and the query is reverse exactly when the flag bit is
  set; that is the rule the specification states. Without it the reference is not
  normalised: the query stays forward and the target carries the orientation of the
  record.
\<close>

definition orientation :: "bool \<Rightarrow> bool \<Rightarrow> strand \<times> strand" where
  "orientation keepRefAsForward reverseComplement =
     (let s = (if reverseComplement then Reverse else Forward)
      in if keepRefAsForward then (s, Forward) else (Forward, s))"

text \<open>
  A stand-in for the library on the examples below: the header is already in the order of
  the FASTA file, every record decodes into \<open>n\<close> gap-free segments of the read against
  the reference window at its position, with the strands of \<open>orientation\<close>.
\<close>

definition reference_window :: "FASTASequence list \<Rightarrow> (string \<rightharpoonup> nat) \<Rightarrow> SAMAlignment \<Rightarrow> string" where
  "reference_window refs idx sam =
     (case idx (rName sam) of
        None \<Rightarrow> []
      | Some i \<Rightarrow>
          if i < length refs
          then take (length (SAMAlignment.seq sam)) (drop (pos sam - 1) (FASTASequence.seq (refs ! i)))
          else [])"

definition segment ::
  "SAMAlignment \<Rightarrow> FASTASequence list \<Rightarrow> (string \<rightharpoonup> nat) \<Rightarrow> bool \<Rightarrow> AlignmentCandidate" where
  "segment sam refs idx keepRefAsForward =
     \<lparr>nMatch = 0, nMismatch = 0, nIns = 0, nDel = 0, pctSimilarity = None, score = 0,
      qName = SAMAlignment.qName sam, tName = rName sam,
      qStrand = fst (orientation keepRefAsForward (IsReverseComplement (flag sam))),
      tStrand = snd (orientation keepRefAsForward (IsReverseComplement (flag sam))),
      qAlignedSeq = SAMAlignment.seq sam,
      tAlignedSeq = reference_window refs idx sam,
      qLength = int (length (SAMAlignment.seq sam)),
      tLength = int (length (reference_window refs idx sam)),
      mapQV = 0\<rparr>"

definition segments_library :: "nat \<Rightarrow> library" where
  "segments_library n =
     \<lparr>RearrangeReferences = (\<lambda>refs header. header),
      SAMAlignmentsToCandidates =
        (\<lambda>sam refs idx parseSmrtTitle keepRefAsForward.
           replicate n (segment sam refs idx keepRefAsForward)),
      ComputeAlignmentStats = ComputeAlignmentStats_spec,
      distScoreFn = (\<lambda>q t. if q = t then 0 else 1)\<rparr>"

subsection \<open>Example inputs\<close>

definition chr1 :: FASTASequence where
  "chr1 = \<lparr>title = ''chr1 first contig'', FASTASequence.seq = ''ACGTACGTAC''\<rparr>"

definition chr2 :: FASTASequence where
  "chr2 = \<lparr>title = ''chr2 second contig'', FASTASequence.seq = ''TTGACCA''\<rparr>"

definition chr3 :: FASTASequence where
  "chr3 = \<lparr>title = ''chr3 third contig'', FASTASequence.seq = ''GGGCCC''\<rparr>"

definition sq :: "string \<Rightarrow> nat \<Rightarrow> SAMFullReferenceSequence" where
  "sq name n = \<lparr>sequenceName = name, seqLength = n\<rparr>"

definition mapped_record :: SAMAlignment where
  "mapped_record =
     \<lparr>SAMAlignment.qName = ''read/1'', flag = 0, rName = ''chr1'', pos = 1,
      SAMAlignment.mapQV = 254, cigar = ''4M'', SAMAlignment.seq = ''ACGT'', as = - 20,
      xq = 0\<rparr>"

definition reverse_record :: SAMAlignment where
  "reverse_record = mapped_record\<lparr>flag := 16, xq := 9\<rparr>"

definition unmapped_record :: SAMAlignment where
  "unmapped_record = mapped_record\<lparr>flag := 4, rName := ''*'', cigar := ''*''\<rparr>"

definition padded_record :: SAMAlignment where
  "padded_record = mapped_record\<lparr>cigar := ''10M2P5M''\<rparr>"

definition unknown_record :: SAMAlignment where
  "unknown_record = mapped_record\<lparr>rName := ''chrUn''\<rparr>"

definition full_names :: options where
  "full_names = \<lparr>printHeader = False, useShortRefName = False\<rparr>"

definition short_names :: options where
  "short_names = \<lparr>printHeader = False, useShortRefName = True\<rparr>"


definition mapped_row :: AlignmentCandidate where
  "mapped_row =
     \<lparr>nMatch = 4, nMismatch = 0, nIns = 0, nDel = 0, pctSimilarity = Some 100, score = - 20,
      AlignmentCandidate.qName = ''read/1'', tName = ''chr1'', qStrand = Forward,
      tStrand = Forward, qAlignedSeq = ''ACGT'', tAlignedSeq = ''ACGT'', qLength = 4,
      tLength = 4, mapQV = 254\<rparr>"

definition reverse_row :: AlignmentCandidate where
  "reverse_row = mapped_row\<lparr>tStrand := Reverse, qLength := 9\<rparr>"

definition chr1_catalog :: catalog where
  "chr1_catalog =
     \<lparr>references = [chr1], shortRefNameToFull = [''chr1'' \<mapsto> ''chr1 first contig''],
      refNameToIndex = [''chr1 first contig'' \<mapsto> 0]\<rparr>"

definition chr1_short_catalog :: catalog where
  "chr1_short_catalog =
     \<lparr>references = [chr1], shortRefNameToFull = Map.empty, refNameToIndex = [''chr1'' \<mapsto> 0]\<rparr>"

definition fresh_session :: session where
  "fresh_session = \<lparr>out = [], alignIndex = 0\<rparr>"

definition mismatch_record :: SAMAlignment where
  "mismatch_record = mapped_record\<lparr>SAMAlignment.seq := ''ACGA''\<rparr>"

definition mismatch_row :: AlignmentCandidate where
  "mismatch_row = mapped_row\<lparr>nMatch := 3, nMismatch := 1, pctSimilarity := Some 75,
     qAlignedSeq := ''ACGA''\<rparr>"



section \<open>Properties\<close>

subsection \<open>Auxiliary facts\<close>

lemmas model_defs =
  main_def tables_def resolve_names_def index_names_def process_record_def convert_alignment_def
  lookup_reference_def finish_alignment_def reconcile_fields_def store_stats_def Let_def

lemmas library_defs =
  segments_library_def segment_def reference_window_def orientation_def
  IsReverseComplement_def ComputeAlignmentStats_spec_def columns_def classify_def gap_def
  percent_identity_def

lemmas example_defs =
  chr1_def chr2_def chr3_def sq_def mapped_record_def reverse_record_def unmapped_record_def
  padded_record_def unknown_record_def mismatch_record_def full_names_def short_names_def
  mapped_row_def reverse_row_def mismatch_row_def

lemma run_mapped:
  "main short_names (segments_library 1) [chr1] [sq ''chr1'' 10] [mapped_record] =
     (Returned, \<lparr>out = [PrintFromSAM mapped_row], alignIndex = 1\<rparr>)"
  by (simp add: model_defs library_defs example_defs)

lemma run_reverse:
  "main short_names (segments_library 1) [chr1] [sq ''chr1'' 10] [reverse_record] =
     (Returned, \<lparr>out = [PrintFromSAM reverse_row], alignIndex = 1\<rparr>)"
  by (simp add: model_defs library_defs example_defs)


lemma lookup_reference_fields:
  "lookup_reference u m r = Some sam \<Longrightarrow>
     as sam = as r \<and> SAMAlignment.mapQV sam = SAMAlignment.mapQV r \<and> xq sam = xq r \<and>
     cigar sam = cigar r \<and> flag sam = flag r"
  by (auto simp: lookup_reference_def split: if_splits option.splits)

lemma finish_alignment_fields:
  "score (finish_alignment lib sam c) = as sam"
  "AlignmentCandidate.mapQV (finish_alignment lib sam c) = SAMAlignment.mapQV sam"
  "qLength (finish_alignment lib sam c) = (if xq sam \<noteq> 0 then xq sam else qLength c)"
  "qStrand (finish_alignment lib sam c) = qStrand c"
  "tStrand (finish_alignment lib sam c) = tStrand c"
  "qAlignedSeq (finish_alignment lib sam c) = qAlignedSeq c"
  "tAlignedSeq (finish_alignment lib sam c) = tAlignedSeq c"
  "pctSimilarity (finish_alignment lib sam c) =
     pctSimilarity (ComputeAlignmentStats lib c (qAlignedSeq c) (tAlignedSeq c) (distScoreFn lib))"
  by (simp_all add: finish_alignment_def reconcile_fields_def store_stats_def Let_def)

lemma convert_alignment_Printed:
  assumes "convert_alignment lib cat sam = Printed a"
  shows "CHR ''P'' \<notin> set (cigar sam) \<and>
         (\<exists>c. SAMAlignmentsToCandidates lib sam (references cat) (refNameToIndex cat) False False = [c]
              \<and> a = finish_alignment lib sam c)"
  using assms
  by (auto simp: convert_alignment_def Let_def split: if_splits list.splits)

lemma process_record_Printed:
  assumes "process_record u lib cat r = Printed a"
  shows "rName r \<noteq> ''*'' \<and>
         (\<exists>sam c. lookup_reference u (shortRefNameToFull cat) r = Some sam \<and>
            CHR ''P'' \<notin> set (cigar r) \<and>
            SAMAlignmentsToCandidates lib sam (references cat) (refNameToIndex cat) False False = [c] \<and>
            a = finish_alignment lib sam c)"
proof -
  from assms have n: "rName r \<noteq> ''*''"
    by (auto simp: process_record_def split: if_splits)
  with assms obtain sam where
    l: "lookup_reference u (shortRefNameToFull cat) r = Some sam" and
    c: "convert_alignment lib cat sam = Printed a"
    by (auto simp: process_record_def split: option.splits)
  from convert_alignment_Printed [OF c] lookup_reference_fields [OF l] n l
  show ?thesis by auto
qed

lemma convert_records_PrintFromSAM:
  "PrintFromSAM a \<in> set (out (snd (convert_records u lib cat s rs))) \<Longrightarrow>
     PrintFromSAM a \<in> set (out s) \<or> (\<exists>r\<in>set rs. process_record u lib cat r = Printed a)"
proof (induction rs arbitrary: s)
  case Nil
  then show ?case by simp
next
  case (Cons r rs)
  show ?case
  proof (cases "process_record u lib cat r")
    case (Continue msgs)
    with Cons.prems have
      "PrintFromSAM a \<in> set (out (snd (convert_records u lib cat (s\<lparr>out := out s @ map Cout msgs\<rparr>) rs)))"
      by simp
    from Cons.IH [OF this] show ?thesis by auto
  next
    case (Printed b)
    with Cons.prems have
      "PrintFromSAM a \<in> set (out (snd (convert_records u lib cat
          (s\<lparr>out := out s @ [PrintFromSAM b], alignIndex := Suc (alignIndex s)\<rparr>) rs)))"
      by simp
    from Cons.IH [OF this] Printed show ?thesis by auto
  next
    case (Exit msg)
    with Cons.prems show ?thesis by simp
  next
    case Undefined
    with Cons.prems show ?thesis by simp
  qed
qed

lemma main_PrintFromSAM:
  assumes "PrintFromSAM a \<in> set (out (snd (main opts lib refs header alignments)))"
  shows "\<exists>m hdr'.
           resolve_names (useShortRefName opts) refs (RearrangeReferences lib refs header) =
             Inr (m, hdr') \<and>
           (\<exists>r\<in>set alignments.
              process_record (useShortRefName opts) lib (tables refs m hdr') r = Printed a)"
proof -
  let ?hdr = "RearrangeReferences lib refs header"
  from assms have len: "length refs = length ?hdr"
    by (auto simp: main_def Let_def split: if_splits)
  show ?thesis
  proof (cases "resolve_names (useShortRefName opts) refs ?hdr")
    case (Inl n)
    with assms len show ?thesis by (simp add: main_def Let_def)
  next
    case (Inr p)
    obtain m hdr' where p: "p = (m, hdr')" by (cases p)
    from assms len Inr p have
      "PrintFromSAM a \<in> set (out (snd (convert_records (useShortRefName opts) lib
          (tables refs m hdr')
          (\<lparr>out = [], alignIndex = 0\<rparr>\<lparr>out := (if printHeader opts then [PrintHeader] else [])\<rparr>)
          alignments)))"
      by (simp add: main_def Let_def)
    from convert_records_PrintFromSAM [OF this]
    have "\<exists>r\<in>set alignments.
            process_record (useShortRefName opts) lib (tables refs m hdr') r = Printed a"
      by (auto split: if_splits)
    with Inr p show ?thesis by blast
  qed
qed

lemma process_record_Printed_tables:
  assumes "process_record u lib (tables refs m hdr) r = Printed a"
  shows "\<exists>sam c. lookup_reference u m r = Some sam \<and>
           SAMAlignmentsToCandidates lib sam refs (index_names (length refs) hdr) False False = [c] \<and>
           a = finish_alignment lib sam c"
  using process_record_Printed [OF assms] by (auto simp: tables_def)

lemma process_record_Continue:
  assumes "process_record u lib cat r = Continue msgs"
  shows "msgs = [] \<or> msgs = [padding_warning] \<or> msgs = [multiple_segments_warning]"
  using assms
  by (auto simp: process_record_def convert_alignment_def Let_def
      split: if_splits option.splits list.splits)

lemma process_record_short_not_Exit:
  "process_record True lib cat r \<noteq> Exit msg"
  by (auto simp: process_record_def lookup_reference_def convert_alignment_def Let_def
      split: list.splits)

lemma convert_records_short:
  "fst (convert_records True lib cat s rs) \<noteq> ExitFailure \<and>
   (Cout msg \<in> set (out (snd (convert_records True lib cat s rs))) \<longrightarrow>
      Cout msg \<in> set (out s) \<or> msg = padding_warning \<or> msg = multiple_segments_warning)"
proof (induction rs arbitrary: s)
  case Nil
  show ?case by simp
next
  case (Cons r rs)
  show ?case
  proof (cases "process_record True lib cat r")
    case (Continue msgs)
    from process_record_Continue [OF Continue] Continue
      Cons.IH [of "s\<lparr>out := out s @ map Cout msgs\<rparr>"]
    show ?thesis by auto
  next
    case (Printed b)
    with Cons.IH [of "s\<lparr>out := out s @ [PrintFromSAM b], alignIndex := Suc (alignIndex s)\<rparr>"]
    show ?thesis by auto
  next
    case (Exit m)
    with process_record_short_not_Exit show ?thesis by blast
  next
    case Undefined
    then show ?thesis by simp
  qed
qed

lemma warnings_are_not_errors:
  "padding_warning \<noteq> reference_not_found_error name"
  "multiple_segments_warning \<noteq> reference_not_found_error name"
  "padding_warning \<noteq> duplicate_reference_error name"
  "multiple_segments_warning \<noteq> duplicate_reference_error name"
  by (simp_all add: padding_warning_def multiple_segments_warning_def
      reference_not_found_error_def duplicate_reference_error_def)

lemma main_short_names:
  assumes "useShortRefName opts"
  shows "main opts lib refs header alignments =
     (if length refs \<noteq> length (RearrangeReferences lib refs header)
      then (AssertionFailed, \<lparr>out = [], alignIndex = 0\<rparr>)
      else convert_records True lib
             (tables refs Map.empty (RearrangeReferences lib refs header))
             \<lparr>out = (if printHeader opts then [PrintHeader] else []), alignIndex = 0\<rparr>
             alignments)"
  using assms by (simp add: main_def resolve_names_def Let_def)

lemma main_short_names_status:
  assumes "useShortRefName opts"
  shows "fst (main opts lib refs header alignments) \<noteq> ExitFailure"
proof (cases "length refs \<noteq> length (RearrangeReferences lib refs header)")
  case True
  then show ?thesis by (simp add: main_short_names [OF assms])
next
  case False
  then have "main opts lib refs header alignments =
      convert_records True lib
        (tables refs Map.empty (RearrangeReferences lib refs header))
        \<lparr>out = (if printHeader opts then [PrintHeader] else []), alignIndex = 0\<rparr>
        alignments"
    by (simp add: main_short_names [OF assms])
  then show ?thesis using convert_records_short by simp
qed

lemma main_short_names_lines:
  assumes "useShortRefName opts"
      and "Cout msg \<in> set (out (snd (main opts lib refs header alignments)))"
  shows "msg = padding_warning \<or> msg = multiple_segments_warning"
proof (cases "length refs \<noteq> length (RearrangeReferences lib refs header)")
  case True
  with assms(2) show ?thesis by (simp add: main_short_names [OF assms(1)])
next
  case False
  let ?s = "\<lparr>out = (if printHeader opts then [PrintHeader] else []), alignIndex = 0\<rparr>"
  let ?cat = "(tables refs Map.empty (RearrangeReferences lib refs header))"
  from False have "main opts lib refs header alignments = convert_records True lib ?cat ?s alignments"
    by (simp add: main_short_names [OF assms(1)])
  with assms(2) have "Cout msg \<in> set (out (snd (convert_records True lib ?cat ?s alignments)))"
    by simp
  with convert_records_short [of lib ?cat ?s alignments msg]
  have "Cout msg \<in> set (out ?s) \<or> msg = padding_warning \<or> msg = multiple_segments_warning"
    by blast
  moreover have "Cout msg \<notin> set (out ?s)" by simp
  ultimately show ?thesis by blast
qed








lemma bind_names_Inl:
  "bind_names ps m = Inl n \<Longrightarrow>
     n \<in> set (map sequenceName (map snd ps)) \<and>
     (m n \<noteq> None \<or> 2 \<le> count_list (map sequenceName (map snd ps)) n)"
proof (induction ps arbitrary: m)
  case Nil
  then show ?case by simp
next
  case (Cons p ps)
  obtain f h where p: "p = (f, h)" by (cases p)
  let ?names = "map sequenceName (map snd ps)"
  show ?case
  proof (cases "m (sequenceName h) \<noteq> None")
    case True
    with Cons.prems p have "n = sequenceName h" by (auto simp: Let_def)
    with True p show ?thesis by simp
  next
    case False
    with Cons.prems p have "bind_names ps (m(sequenceName h \<mapsto> title f)) = Inl n"
      by (auto simp: Let_def split: sum.splits)
    from Cons.IH [OF this]
    have in_ps: "n \<in> set ?names"
      and alt: "(m(sequenceName h \<mapsto> title f)) n \<noteq> None \<or> 2 \<le> count_list ?names n"
      by blast+
    from in_ps have "count_list ?names n \<noteq> 0"
      by (simp only: count_list_0_iff) simp
    then have one: "1 \<le> count_list ?names n"
      by simp
    show ?thesis
    proof (cases "n = sequenceName h")
      case True
      with one in_ps p show ?thesis by simp
    next
      case False
      with alt in_ps p show ?thesis by simp
    qed
  qed
qed

lemma bind_names_Inr:
  "bind_names ps m = Inr x \<Longrightarrow>
     distinct (map sequenceName (map snd ps)) \<and>
     (\<forall>n\<in>set (map sequenceName (map snd ps)). m n = None)"
proof (induction ps arbitrary: m x)
  case Nil
  then show ?case by simp
next
  case (Cons p ps)
  obtain f h where p: "p = (f, h)" by (cases p)
  let ?names = "map sequenceName (map snd ps)"
  let ?m = "m(sequenceName h \<mapsto> title f)"
  from Cons.prems p have free: "m (sequenceName h) = None"
    by (auto simp: Let_def split: if_splits)
  with Cons.prems p obtain y where rest: "bind_names ps ?m = Inr y"
    by (auto simp: Let_def split: sum.splits)
  from Cons.IH [OF rest] have d: "distinct ?names" and e: "\<forall>n\<in>set ?names. ?m n = None"
    by blast+
  from e have fresh: "sequenceName h \<notin> set ?names"
    by auto
  from e have "\<forall>n\<in>set ?names. m n = None"
    by (auto split: if_splits)
  with d fresh free p show ?case by simp
qed

lemma bind_names_duplicate:
  assumes "\<not> distinct (map sequenceName hdr)" and "length refs = length hdr"
  shows "\<exists>n. bind_names (zip refs hdr) Map.empty = Inl n \<and>
             2 \<le> count_list (map sequenceName hdr) n"
proof (cases "bind_names (zip refs hdr) Map.empty")
  case (Inl n)
  from bind_names_Inl [OF Inl] assms(2) have "2 \<le> count_list (map sequenceName hdr) n"
    by simp
  with Inl show ?thesis by blast
next
  case (Inr x)
  from bind_names_Inr [OF Inr] assms show ?thesis by simp
qed


lemma fold_index_other:
  "k \<notin> g ` set js \<Longrightarrow> fold (\<lambda>i m. m(g i \<mapsto> i)) js m k = m k"
  by (induction js arbitrary: m) auto

lemma fold_index_key:
  "k \<in> g ` set js \<Longrightarrow> \<exists>j\<in>set js. g j = k \<and> fold (\<lambda>i m. m(g i \<mapsto> i)) js m k = Some j"
proof (induction js arbitrary: m)
  case Nil
  then show ?case by simp
next
  case (Cons i js)
  let ?F = "\<lambda>i m. m(g i \<mapsto> i)"
  have step: "fold ?F (i # js) m = fold ?F js (m(g i \<mapsto> i))"
    by (simp only: fold_simps comp_apply)
  show ?case
  proof (cases "k \<in> g ` set js")
    case True
    from Cons.IH [OF True, of "m(g i \<mapsto> i)"] obtain j where
      j: "j \<in> set js" and gj: "g j = k" and f: "fold ?F js (m(g i \<mapsto> i)) k = Some j"
      by blast
    from j have "j \<in> set (i # js)" by simp
    moreover from f have "fold ?F (i # js) m k = Some j" by (simp only: step)
    ultimately show ?thesis using gj by blast
  next
    case False
    with Cons.prems have k: "g i = k" by auto
    from fold_index_other [OF False, of "m(g i \<mapsto> i)"] k
    have "fold ?F js (m(g i \<mapsto> i)) k = Some i" by simp
    then have "fold ?F (i # js) m k = Some i" by (simp only: step)
    moreover have "i \<in> set (i # js)" by simp
    ultimately show ?thesis using k by blast
  qed
qed

lemma index_names_keys:
  assumes "h \<in> set hdr"
  shows "\<exists>j<length hdr. sequenceName (hdr ! j) = sequenceName h \<and>
           index_names (length hdr) hdr (sequenceName h) = Some j"
proof -
  let ?g = "\<lambda>i. sequenceName (hdr ! i)"
  from assms obtain i where i: "i < length hdr" and h: "hdr ! i = h"
    by (auto simp: in_set_conv_nth)
  then have "sequenceName h \<in> ?g ` set [0..<length hdr]"
    by auto
  from fold_index_key [OF this, of Map.empty] obtain j where
    j: "j \<in> set [0..<length hdr]" and gj: "?g j = sequenceName h" and
    f: "fold (\<lambda>i m. m(?g i \<mapsto> i)) [0..<length hdr] Map.empty (sequenceName h) = Some j"
    by blast
  from j have "j < length hdr" by simp
  moreover from f have "index_names (length hdr) hdr (sequenceName h) = Some j"
    by (simp only: index_names_def)
  ultimately show ?thesis using gj by blast
qed

lemma index_names_dom:
  "dom (index_names (length hdr) hdr) = sequenceName ` set hdr"
proof
  let ?g = "\<lambda>i. sequenceName (hdr ! i)"
  show "dom (index_names (length hdr) hdr) \<subseteq> sequenceName ` set hdr"
  proof
    fix k assume d: "k \<in> dom (index_names (length hdr) hdr)"
    show "k \<in> sequenceName ` set hdr"
    proof (rule ccontr)
      assume "k \<notin> sequenceName ` set hdr"
      then have "k \<notin> ?g ` set [0..<length hdr]" by auto
      from fold_index_other [OF this, of Map.empty]
      have "index_names (length hdr) hdr k = None" by (simp only: index_names_def)
      with d show False by auto
    qed
  qed
  show "sequenceName ` set hdr \<subseteq> dom (index_names (length hdr) hdr)"
  proof
    fix k assume "k \<in> sequenceName ` set hdr"
    then obtain h where "h \<in> set hdr" and "k = sequenceName h" by auto
    with index_names_keys [of h hdr] show "k \<in> dom (index_names (length hdr) hdr)" by auto
  qed
qed

lemma convert_records_short_Printed:
  assumes "rName r \<noteq> ''*''" and "CHR ''P'' \<notin> set (cigar r)"
      and "SAMAlignmentsToCandidates lib r (references cat) (refNameToIndex cat) False False = [c]"
  shows "convert_records True lib cat s (r # rs) =
           convert_records True lib cat
             (s\<lparr>out := out s @ [PrintFromSAM (finish_alignment lib r c)],
                alignIndex := Suc (alignIndex s)\<rparr>) rs"
proof -
  from assms have "process_record True lib cat r = Printed (finish_alignment lib r c)"
    by (simp add: process_record_def lookup_reference_def convert_alignment_def)
  then show ?thesis by simp
qed

lemma main_short_names_Printed:
  assumes "useShortRefName opts"
      and "PrintFromSAM a \<in> set (out (snd (main opts lib refs header alignments)))"
  shows "\<exists>r\<in>set alignments. \<exists>c.
           SAMAlignmentsToCandidates lib r refs
             (index_names (length refs) (RearrangeReferences lib refs header)) False False = [c] \<and>
           a = finish_alignment lib r c \<and> tName a = tName c"
proof -
  from main_PrintFromSAM [OF assms(2)] obtain m hdr' r where
    n: "resolve_names (useShortRefName opts) refs (RearrangeReferences lib refs header) =
          Inr (m, hdr')" and
    r: "r \<in> set alignments" and
    p: "process_record (useShortRefName opts) lib (tables refs m hdr') r = Printed a"
    by blast
  from n assms(1) have m: "m = Map.empty" and hdr: "hdr' = RearrangeReferences lib refs header"
    by (simp_all add: resolve_names_def)
  from process_record_Printed_tables [OF p] obtain sam c where
    l: "lookup_reference (useShortRefName opts) m r = Some sam" and
    b: "SAMAlignmentsToCandidates lib sam refs (index_names (length refs) hdr')
          False False = [c]" and
    a: "a = finish_alignment lib sam c"
    by blast
  from l assms(1) have s: "sam = r" by (simp add: lookup_reference_def)
  have "tName (finish_alignment lib r c) = tName c"
    by (simp add: finish_alignment_def reconcile_fields_def store_stats_def Let_def)
  with r b a s hdr show ?thesis by blast
qed


subsection \<open>The claims\<close>

text \<open>
  Claim C1. The claim has the target strand of every printed row forward and the query
  strand reverse exactly when the reverse-complement flag bit of the record is set; the
  comment of lines 175 to 179 says the same. What \<^verbatim>\<open>main\<close> does: every candidate handed to
  \<^verbatim>\<open>PrintFromSAM\<close> is the single candidate that \<^verbatim>\<open>SAMAlignmentsToCandidates\<close> returned
  for a record of the input when called with \<^verbatim>\<open>keepRefAsForward = false\<close> (line 180), and it
  is printed with the strands the builder gave it. So the rows carry the orientation the
  builder chooses when it is told not to keep the reference forward. On the record
  \<open>reverse_record\<close> (flag 16), with the builder's orientation rule as modelled above, the
  printed row has the query forward and the target reverse.
\<close>

theorem printed_strands_from_builder_without_keepRefAsForward:
  assumes "PrintFromSAM a \<in> set (out (snd (main opts lib refs header alignments)))"
  shows "\<exists>m hdr'.
           resolve_names (useShortRefName opts) refs (RearrangeReferences lib refs header) =
             Inr (m, hdr') \<and>
           (\<exists>r\<in>set alignments. \<exists>sam c.
              process_record (useShortRefName opts) lib (tables refs m hdr') r = Printed a \<and>
              lookup_reference (useShortRefName opts) m r = Some sam \<and>
              SAMAlignmentsToCandidates lib sam refs (index_names (length refs) hdr')
                False False = [c] \<and>
              flag sam = flag r \<and>
              qStrand a = qStrand c \<and> tStrand a = tStrand c)"
proof -
  from main_PrintFromSAM [OF assms] obtain m hdr' r where
    n: "resolve_names (useShortRefName opts) refs (RearrangeReferences lib refs header) =
             Inr (m, hdr')" and
    r: "r \<in> set alignments" and
    p: "process_record (useShortRefName opts) lib (tables refs m hdr') r = Printed a"
    by blast
  from process_record_Printed_tables [OF p] obtain sam c where
    l: "lookup_reference (useShortRefName opts) m r = Some sam" and
    b: "SAMAlignmentsToCandidates lib sam refs (index_names (length refs) hdr')
          False False = [c]" and
    a: "a = finish_alignment lib sam c"
    by blast
  from lookup_reference_fields [OF l] a
  have "flag sam = flag r \<and> qStrand a = qStrand c \<and> tStrand a = tStrand c"
    by (simp add: finish_alignment_fields)
  with n r p l b show ?thesis by blast
qed

theorem reverse_record_printed_with_target_reverse:
  "PrintFromSAM reverse_row \<in>
     set (out (snd (main short_names (segments_library 1) [chr1] [sq ''chr1'' 10] [reverse_record]))) \<and>
   (\<exists>m hdr'.
       resolve_names (useShortRefName short_names) [chr1]
         (RearrangeReferences (segments_library 1) [chr1] [sq ''chr1'' 10]) =
         Inr (m, hdr') \<and>
       (\<exists>r\<in>set [reverse_record]. \<exists>sam c.
          process_record (useShortRefName short_names) (segments_library 1)
            (tables [chr1] m hdr') r = Printed reverse_row \<and>
          lookup_reference (useShortRefName short_names) m r = Some sam \<and>
          SAMAlignmentsToCandidates (segments_library 1) sam [chr1]
            (index_names (length [chr1]) hdr') False False = [c] \<and>
          flag sam = flag r \<and>
          qStrand reverse_row = qStrand c \<and> tStrand reverse_row = tStrand c)) \<and>
   IsReverseComplement (flag reverse_record) \<and>
   qStrand reverse_row = Forward \<and>
   tStrand reverse_row = Reverse"
proof -
  have h: "PrintFromSAM reverse_row \<in>
     set (out (snd (main short_names (segments_library 1) [chr1] [sq ''chr1'' 10] [reverse_record])))"
    by (subst run_reverse) simp
  have t0: "IsReverseComplement (flag reverse_record)"
    by (simp add: reverse_record_def IsReverseComplement_def)
  have t1: "qStrand reverse_row = Forward"
    by (simp add: reverse_row_def mapped_row_def)
  have t2: "tStrand reverse_row = Reverse"
    by (simp add: reverse_row_def)
  from h printed_strands_from_builder_without_keepRefAsForward [OF h] t0 t1 t2
  show ?thesis by (intro conjI)
qed

text \<open>
  Claim C2. If the number of reference sequences read from the FASTA file differs from the
  number of references the SAM header declares, the \<^verbatim>\<open>assert\<close> of line 109 fails: the
  process aborts with nothing written and no record read, whatever the records are. The
  first premise says that \<^verbatim>\<open>RearrangeReferences\<close> keeps the number of references, as a
  reordering does. The assertion is taken as compiled in.
\<close>

theorem reference_count_mismatch_aborts:
  assumes "length (RearrangeReferences lib refs header) = length header"
      and "length refs \<noteq> length header"
  shows "main opts lib refs header alignments = (AssertionFailed, \<lparr>out = [], alignIndex = 0\<rparr>)"
  using assms by (simp add: main_def Let_def)

theorem reference_count_mismatch_aborts_witness:
  "length (RearrangeReferences (segments_library 1) [chr1, chr2, chr3] [sq ''chr1'' 10, sq ''chr2'' 7])
     = length [sq ''chr1'' 10, sq ''chr2'' 7]
   \<and> length [chr1, chr2, chr3] \<noteq> length [sq ''chr1'' 10, sq ''chr2'' 7]
   \<and> main full_names (segments_library 1) [chr1, chr2, chr3] [sq ''chr1'' 10, sq ''chr2'' 7]
        [mapped_record] = (AssertionFailed, \<lparr>out = [], alignIndex = 0\<rparr>)"
proof -
  have a: "length (RearrangeReferences (segments_library 1) [chr1, chr2, chr3]
             [sq ''chr1'' 10, sq ''chr2'' 7]) = length [sq ''chr1'' 10, sq ''chr2'' 7]"
    by (simp add: segments_library_def)
  have b: "length [chr1, chr2, chr3] \<noteq> length [sq ''chr1'' 10, sq ''chr2'' 7]"
    by simp
  from a b reference_count_mismatch_aborts [OF a b] show ?thesis by (intro conjI)
qed

text \<open>
  Claim C3. Without \<^verbatim>\<open>-useShortRefName\<close>, if two references of the header carry the same
  short name, the run ends before the loop over the records: when the reference counts
  agree, the binding loop writes the error line for a name that occurs at least twice and
  exits with \<^verbatim>\<open>EXIT_FAILURE\<close>; when they differ, the \<^verbatim>\<open>assert\<close> before the loop has
  already aborted the process. In both cases nothing depends on the records. The second
  premise says that \<^verbatim>\<open>RearrangeReferences\<close> reorders the header's references.
\<close>

theorem duplicate_short_name_exits:
  assumes "\<not> useShortRefName opts"
      and "mset (RearrangeReferences lib refs header) = mset header"
      and "\<not> distinct (map sequenceName header)"
  shows "(length refs = length header \<longrightarrow>
            (\<exists>name. 2 \<le> count_list (map sequenceName header) name \<and>
               main opts lib refs header alignments =
                 (ExitFailure,
                  \<lparr>out = [Cout (duplicate_reference_error name)], alignIndex = 0\<rparr>))) \<and>
         (length refs \<noteq> length header \<longrightarrow>
            main opts lib refs header alignments =
              (AssertionFailed, \<lparr>out = [], alignIndex = 0\<rparr>))"
proof -
  let ?hdr = "RearrangeReferences lib refs header"
  from assms(2) have len: "length ?hdr = length header"
    by (rule mset_eq_length)
  from assms(2) have names: "mset (map sequenceName ?hdr) = mset (map sequenceName header)"
    by simp
  from names assms(3) have dup: "\<not> distinct (map sequenceName ?hdr)"
    using mset_eq_imp_distinct_iff by blast
  from names have cnt: "count_list (map sequenceName ?hdr) n = count_list (map sequenceName header) n" for n
    by (metis count_mset)
  have a: "\<exists>name. 2 \<le> count_list (map sequenceName header) name \<and>
               main opts lib refs header alignments =
                 (ExitFailure, \<lparr>out = [Cout (duplicate_reference_error name)], alignIndex = 0\<rparr>)"
    if eq: "length refs = length header"
  proof -
    from eq len have l: "length refs = length ?hdr" by simp
    from bind_names_duplicate [OF dup l] obtain n where
      n: "bind_names (zip refs ?hdr) Map.empty = Inl n" and
      c: "2 \<le> count_list (map sequenceName ?hdr) n"
      by blast
    from n l assms(1) have "main opts lib refs header alignments =
        (ExitFailure, \<lparr>out = [Cout (duplicate_reference_error n)], alignIndex = 0\<rparr>)"
      by (simp add: main_def resolve_names_def Let_def)
    with c cnt [of n] show ?thesis by auto
  qed
  have b: "main opts lib refs header alignments = (AssertionFailed, \<lparr>out = [], alignIndex = 0\<rparr>)"
    if "length refs \<noteq> length header"
    using that len by (simp add: main_def Let_def)
  from a b show ?thesis by blast
qed

theorem duplicate_short_name_exits_witness:
  "\<not> useShortRefName full_names \<and>
   mset (RearrangeReferences (segments_library 1) [chr1, chr2] [sq ''chr1'' 10, sq ''chr1'' 7]) =
     mset [sq ''chr1'' 10, sq ''chr1'' 7] \<and>
   \<not> distinct (map sequenceName [sq ''chr1'' 10, sq ''chr1'' 7]) \<and>
   length [chr1, chr2] = length [sq ''chr1'' 10, sq ''chr1'' 7] \<and>
   (\<exists>name. 2 \<le> count_list (map sequenceName [sq ''chr1'' 10, sq ''chr1'' 7]) name \<and>
      main full_names (segments_library 1) [chr1, chr2] [sq ''chr1'' 10, sq ''chr1'' 7]
        [mapped_record] =
        (ExitFailure, \<lparr>out = [Cout (duplicate_reference_error name)], alignIndex = 0\<rparr>))"
proof -
  have a: "\<not> useShortRefName full_names"
    by (simp add: full_names_def)
  have b: "mset (RearrangeReferences (segments_library 1) [chr1, chr2]
        [sq ''chr1'' 10, sq ''chr1'' 7]) = mset [sq ''chr1'' 10, sq ''chr1'' 7]"
    by (simp add: segments_library_def)
  have c: "\<not> distinct (map sequenceName [sq ''chr1'' 10, sq ''chr1'' 7])"
    by (simp add: sq_def)
  have d: "length [chr1, chr2] = length [sq ''chr1'' 10, sq ''chr1'' 7]"
    by simp
  from duplicate_short_name_exits [OF a b c, where alignments = "[mapped_record]"] d
  have e: "\<exists>name. 2 \<le> count_list (map sequenceName [sq ''chr1'' 10, sq ''chr1'' 7]) name \<and>
      main full_names (segments_library 1) [chr1, chr2] [sq ''chr1'' 10, sq ''chr1'' 7]
        [mapped_record] =
        (ExitFailure, \<lparr>out = [Cout (duplicate_reference_error name)], alignIndex = 0\<rparr>)"
    by blast
  from a b c d e show ?thesis by (intro conjI)
qed

text \<open>
  Claim C4, amended. A record whose reference name is \<^verbatim>\<open>*\<close> is skipped without any line
  being written. A record that has passed the lookup of lines 155 to 164 and whose CIGAR
  string contains \<^verbatim>\<open>P\<close> is skipped with the padding warning; one that has passed the
  lookup, has no \<^verbatim>\<open>P\<close> and decodes into more than one candidate is skipped with the
  multiple-segments warning. In all three cases \<^verbatim>\<open>PrintFromSAM\<close> is not called for the
  record, \<^verbatim>\<open>alignIndex\<close> is unchanged, and the loop goes on with the next record.
\<close>

theorem skipped_records_continue:
  "(rName r = ''*'' \<longrightarrow>
      convert_records useShort lib cat s (r # rs) = convert_records useShort lib cat s rs)
   \<and> (rName r \<noteq> ''*'' \<and> lookup_reference useShort (shortRefNameToFull cat) r = Some sam \<and>
        CHR ''P'' \<in> set (cigar r) \<longrightarrow>
      convert_records useShort lib cat s (r # rs) =
        convert_records useShort lib cat (s\<lparr>out := out s @ [Cout padding_warning]\<rparr>) rs)
   \<and> (rName r \<noteq> ''*'' \<and> lookup_reference useShort (shortRefNameToFull cat) r = Some sam \<and>
        CHR ''P'' \<notin> set (cigar r) \<and>
        1 < length (SAMAlignmentsToCandidates lib sam (references cat) (refNameToIndex cat)
                      False False) \<longrightarrow>
      convert_records useShort lib cat s (r # rs) =
        convert_records useShort lib cat (s\<lparr>out := out s @ [Cout multiple_segments_warning]\<rparr>) rs)"
proof (intro conjI impI)
  assume "rName r = ''*''"
  then have "process_record useShort lib cat r = Continue []"
    by (simp add: process_record_def)
  then show "convert_records useShort lib cat s (r # rs) = convert_records useShort lib cat s rs"
    by simp
next
  assume h: "rName r \<noteq> ''*'' \<and> lookup_reference useShort (shortRefNameToFull cat) r = Some sam \<and>
        CHR ''P'' \<in> set (cigar r)"
  then have "cigar sam = cigar r" by (auto dest: lookup_reference_fields)
  with h have "process_record useShort lib cat r = Continue [padding_warning]"
    by (simp add: process_record_def convert_alignment_def)
  then show "convert_records useShort lib cat s (r # rs) =
        convert_records useShort lib cat (s\<lparr>out := out s @ [Cout padding_warning]\<rparr>) rs"
    by simp
next
  assume h: "rName r \<noteq> ''*'' \<and> lookup_reference useShort (shortRefNameToFull cat) r = Some sam \<and>
        CHR ''P'' \<notin> set (cigar r) \<and>
        1 < length (SAMAlignmentsToCandidates lib sam (references cat) (refNameToIndex cat)
                      False False)"
  then have "cigar sam = cigar r" by (auto dest: lookup_reference_fields)
  with h have "process_record useShort lib cat r = Continue [multiple_segments_warning]"
    by (simp add: process_record_def convert_alignment_def)
  then show "convert_records useShort lib cat s (r # rs) =
        convert_records useShort lib cat (s\<lparr>out := out s @ [Cout multiple_segments_warning]\<rparr>) rs"
    by simp
qed

theorem skipped_records_continue_witness:
  "rName unmapped_record = ''*'' \<and>
   convert_records True (segments_library 1) chr1_short_catalog fresh_session [unmapped_record] =
     (Returned, fresh_session) \<and>
   rName padded_record \<noteq> ''*'' \<and>
   lookup_reference False (shortRefNameToFull chr1_catalog) padded_record =
     Some (padded_record\<lparr>rName := ''chr1 first contig''\<rparr>) \<and>
   CHR ''P'' \<in> set (cigar padded_record) \<and>
   convert_records False (segments_library 1) chr1_catalog fresh_session [padded_record] =
     (Returned, fresh_session\<lparr>out := out fresh_session @ [Cout padding_warning]\<rparr>) \<and>
   rName mapped_record \<noteq> ''*'' \<and>
   lookup_reference True (shortRefNameToFull chr1_short_catalog) mapped_record =
     Some mapped_record \<and>
   CHR ''P'' \<notin> set (cigar mapped_record) \<and>
   1 < length (SAMAlignmentsToCandidates (segments_library 2) mapped_record
                 (references chr1_short_catalog) (refNameToIndex chr1_short_catalog) False False) \<and>
   convert_records True (segments_library 2) chr1_short_catalog fresh_session [mapped_record] =
     (Returned, fresh_session\<lparr>out := out fresh_session @ [Cout multiple_segments_warning]\<rparr>)"
proof -
  have a1: "rName unmapped_record = ''*''"
    by (simp add: unmapped_record_def)
  have b1: "rName padded_record \<noteq> ''*''"
    by (simp add: padded_record_def mapped_record_def)
  have b2: "lookup_reference False (shortRefNameToFull chr1_catalog) padded_record =
     Some (padded_record\<lparr>rName := ''chr1 first contig''\<rparr>)"
    by (simp add: lookup_reference_def chr1_catalog_def padded_record_def mapped_record_def)
  have b3: "CHR ''P'' \<in> set (cigar padded_record)"
    by (simp add: padded_record_def)
  have c1: "rName mapped_record \<noteq> ''*''"
    by (simp add: mapped_record_def)
  have c2: "lookup_reference True (shortRefNameToFull chr1_short_catalog) mapped_record =
     Some mapped_record"
    by (simp add: lookup_reference_def)
  have c3: "CHR ''P'' \<notin> set (cigar mapped_record)"
    by (simp add: mapped_record_def)
  have c4: "1 < length (SAMAlignmentsToCandidates (segments_library 2) mapped_record
                 (references chr1_short_catalog) (refNameToIndex chr1_short_catalog) False False)"
    by (simp add: segments_library_def)
  have a: "convert_records True (segments_library 1) chr1_short_catalog fresh_session [unmapped_record] =
     (Returned, fresh_session)"
    using skipped_records_continue [where r = unmapped_record and useShort = True and lib = "segments_library 1"
        and cat = chr1_short_catalog and s = fresh_session and rs = "[]"] a1
    by simp
  have b: "convert_records False (segments_library 1) chr1_catalog fresh_session [padded_record] =
     (Returned, fresh_session\<lparr>out := out fresh_session @ [Cout padding_warning]\<rparr>)"
    using skipped_records_continue [where r = padded_record and useShort = False and lib = "segments_library 1"
        and cat = chr1_catalog and s = fresh_session and rs = "[]"
        and sam = "padded_record\<lparr>rName := ''chr1 first contig''\<rparr>"] b1 b2 b3
    by simp
  have c: "convert_records True (segments_library 2) chr1_short_catalog fresh_session [mapped_record] =
     (Returned, fresh_session\<lparr>out := out fresh_session @ [Cout multiple_segments_warning]\<rparr>)"
    using skipped_records_continue [where r = mapped_record and useShort = True and lib = "segments_library 2"
        and cat = chr1_short_catalog and s = fresh_session and rs = "[]" and sam = mapped_record]
      c1 c2 c3 c4
    by simp
  from a1 a b1 b2 b3 b c1 c2 c3 c4 c show ?thesis by (intro conjI)
qed

text \<open>
  Claim C4 as stated has a warning logged for an unmapped record. Line 152 is a bare
  \<^verbatim>\<open>continue\<close>: the run over the single record \<open>unmapped_record\<close> returns with nothing
  written.
\<close>

theorem unmapped_record_skipped_without_warning:
  "rName unmapped_record = ''*'' \<and>
   main short_names (segments_library 1) [chr1] [sq ''chr1'' 10] [unmapped_record] =
     (Returned, \<lparr>out = [], alignIndex = 0\<rparr>)"
  by (simp add: model_defs library_defs example_defs)

text \<open>
  Claim C5. Every candidate handed to \<^verbatim>\<open>PrintFromSAM\<close> in a run comes from a record of
  the input whose pass through the loop body printed it; its score is the \<^verbatim>\<open>as\<close> field of
  that record and its mapping quality is the record's, for every library, so whatever
  score \<^verbatim>\<open>ComputeAlignmentStats\<close> has computed.
\<close>

theorem printed_score_and_mapQV_from_record:
  assumes "PrintFromSAM a \<in> set (out (snd (main opts lib refs header alignments)))"
  shows "\<exists>m hdr'.
           resolve_names (useShortRefName opts) refs (RearrangeReferences lib refs header) =
             Inr (m, hdr') \<and>
           (\<exists>r\<in>set alignments. \<exists>sam c.
              process_record (useShortRefName opts) lib (tables refs m hdr') r = Printed a \<and>
              lookup_reference (useShortRefName opts) m r = Some sam \<and>
              SAMAlignmentsToCandidates lib sam refs (index_names (length refs) hdr')
                False False = [c] \<and>
              score a = as r \<and> AlignmentCandidate.mapQV a = SAMAlignment.mapQV r)"
proof -
  from main_PrintFromSAM [OF assms] obtain m hdr' r where
    n: "resolve_names (useShortRefName opts) refs (RearrangeReferences lib refs header) =
             Inr (m, hdr')" and
    r: "r \<in> set alignments" and
    p: "process_record (useShortRefName opts) lib (tables refs m hdr') r = Printed a"
    by blast
  from process_record_Printed_tables [OF p] obtain sam c where
    l: "lookup_reference (useShortRefName opts) m r = Some sam" and
    b: "SAMAlignmentsToCandidates lib sam refs (index_names (length refs) hdr')
          False False = [c]" and
    a: "a = finish_alignment lib sam c"
    by blast
  from lookup_reference_fields [OF l] a
  have "score a = as r \<and> AlignmentCandidate.mapQV a = SAMAlignment.mapQV r"
    by (simp add: finish_alignment_fields)
  with n r p l b show ?thesis by blast
qed

theorem printed_score_and_mapQV_from_record_witness:
  "PrintFromSAM mapped_row \<in>
     set (out (snd (main short_names (segments_library 1) [chr1] [sq ''chr1'' 10] [mapped_record]))) \<and>
   (\<exists>m hdr'.
       resolve_names (useShortRefName short_names) [chr1]
         (RearrangeReferences (segments_library 1) [chr1] [sq ''chr1'' 10]) =
         Inr (m, hdr') \<and>
       (\<exists>r\<in>set [mapped_record]. \<exists>sam c.
          process_record (useShortRefName short_names) (segments_library 1)
            (tables [chr1] m hdr') r = Printed mapped_row \<and>
          lookup_reference (useShortRefName short_names) m r = Some sam \<and>
          SAMAlignmentsToCandidates (segments_library 1) sam [chr1]
            (index_names (length [chr1]) hdr') False False = [c] \<and>
          score mapped_row = as r \<and> AlignmentCandidate.mapQV mapped_row = SAMAlignment.mapQV r)) \<and>
   as mapped_record = - 20 \<and>
   score mapped_row = - 20"
proof -
  have h: "PrintFromSAM mapped_row \<in>
     set (out (snd (main short_names (segments_library 1) [chr1] [sq ''chr1'' 10] [mapped_record])))"
    by (subst run_mapped) simp
  have t0: "as mapped_record = - 20"
    by (simp add: mapped_record_def)
  have t1: "score mapped_row = - 20"
    by (simp add: mapped_row_def)
  from h printed_score_and_mapQV_from_record [OF h] t0 t1
  show ?thesis by (intro conjI)
qed

text \<open>
  Claim C6. The \<^verbatim>\<open>qLength\<close> of every candidate handed to \<^verbatim>\<open>PrintFromSAM\<close> is the \<^verbatim>\<open>xq\<close>
  field of its record when that field is not zero, and otherwise the \<^verbatim>\<open>qLength\<close> of the
  candidate the builder returned for the record. (A record without the field has
  \<^verbatim>\<open>xq = 0\<close>.)
\<close>

theorem printed_qLength_from_xq_or_builder:
  assumes "PrintFromSAM a \<in> set (out (snd (main opts lib refs header alignments)))"
  shows "\<exists>m hdr'.
           resolve_names (useShortRefName opts) refs (RearrangeReferences lib refs header) =
             Inr (m, hdr') \<and>
           (\<exists>r\<in>set alignments. \<exists>sam c.
              process_record (useShortRefName opts) lib (tables refs m hdr') r = Printed a \<and>
              lookup_reference (useShortRefName opts) m r = Some sam \<and>
              SAMAlignmentsToCandidates lib sam refs (index_names (length refs) hdr')
                False False = [c] \<and>
              qLength a = (if xq r \<noteq> 0 then xq r else qLength c))"
proof -
  from main_PrintFromSAM [OF assms] obtain m hdr' r where
    n: "resolve_names (useShortRefName opts) refs (RearrangeReferences lib refs header) =
             Inr (m, hdr')" and
    r: "r \<in> set alignments" and
    p: "process_record (useShortRefName opts) lib (tables refs m hdr') r = Printed a"
    by blast
  from process_record_Printed_tables [OF p] obtain sam c where
    l: "lookup_reference (useShortRefName opts) m r = Some sam" and
    b: "SAMAlignmentsToCandidates lib sam refs (index_names (length refs) hdr')
          False False = [c]" and
    a: "a = finish_alignment lib sam c"
    by blast
  from lookup_reference_fields [OF l] a
  have "qLength a = (if xq r \<noteq> 0 then xq r else qLength c)"
    by (simp add: finish_alignment_fields)
  with n r p l b show ?thesis by blast
qed

theorem printed_qLength_from_xq_or_builder_witness:
  "PrintFromSAM reverse_row \<in>
     set (out (snd (main short_names (segments_library 1) [chr1] [sq ''chr1'' 10] [reverse_record]))) \<and>
   (\<exists>m hdr'.
       resolve_names (useShortRefName short_names) [chr1]
         (RearrangeReferences (segments_library 1) [chr1] [sq ''chr1'' 10]) =
         Inr (m, hdr') \<and>
       (\<exists>r\<in>set [reverse_record]. \<exists>sam c.
          process_record (useShortRefName short_names) (segments_library 1)
            (tables [chr1] m hdr') r = Printed reverse_row \<and>
          lookup_reference (useShortRefName short_names) m r = Some sam \<and>
          SAMAlignmentsToCandidates (segments_library 1) sam [chr1]
            (index_names (length [chr1]) hdr') False False = [c] \<and>
          qLength reverse_row = (if xq r \<noteq> 0 then xq r else qLength c))) \<and>
   xq reverse_record = 9 \<and>
   qLength reverse_row = 9"
proof -
  have h: "PrintFromSAM reverse_row \<in>
     set (out (snd (main short_names (segments_library 1) [chr1] [sq ''chr1'' 10] [reverse_record])))"
    by (subst run_reverse) simp
  have t0: "xq reverse_record = 9"
    by (simp add: reverse_record_def)
  have t1: "qLength reverse_row = 9"
    by (simp add: reverse_row_def)
  from h printed_qLength_from_xq_or_builder [OF h] t0 t1
  show ?thesis by (intro conjI)
qed

text \<open>
  Claim C7. Without \<^verbatim>\<open>-useShortRefName\<close>, a record whose reference name is not \<^verbatim>\<open>*\<close> and
  has no entry in \<^verbatim>\<open>shortRefNameToFull\<close> ends the run: the error line is written, the
  process exits with \<^verbatim>\<open>EXIT_FAILURE\<close>, and the records after it are not read. The
  lookup comes before the padding check, so this holds whatever the CIGAR string is.
\<close>

theorem unresolved_reference_exits:
  assumes "rName r \<noteq> ''*''"
      and "\<not> useShort"
      and "shortRefNameToFull cat (rName r) = None"
  shows "convert_records useShort lib cat s (r # rs) =
           (ExitFailure, s\<lparr>out := out s @ [Cout (reference_not_found_error (rName r))]\<rparr>)"
  using assms by (simp add: process_record_def lookup_reference_def)

theorem unresolved_reference_exits_witness:
  "rName unknown_record \<noteq> ''*'' \<and> \<not> useShortRefName full_names \<and>
   shortRefNameToFull chr1_catalog (rName unknown_record) = None \<and>
   convert_records (useShortRefName full_names) (segments_library 1) chr1_catalog fresh_session
     [unknown_record, mapped_record] =
     (ExitFailure,
      \<lparr>out = [Cout ''ERROR, Could not find chrUn in the reference repository.''],
       alignIndex = 0\<rparr>)"
proof -
  have a: "rName unknown_record \<noteq> ''*''"
    by (simp add: unknown_record_def mapped_record_def)
  have b: "\<not> useShortRefName full_names"
    by (simp add: full_names_def)
  have c: "shortRefNameToFull chr1_catalog (rName unknown_record) = None"
    by (simp add: chr1_catalog_def unknown_record_def mapped_record_def)
  have d: "fresh_session\<lparr>out := out fresh_session @ [Cout (reference_not_found_error (rName unknown_record))]\<rparr> =
      \<lparr>out = [Cout ''ERROR, Could not find chrUn in the reference repository.''], alignIndex = 0\<rparr>"
    by (simp add: fresh_session_def reference_not_found_error_def unknown_record_def mapped_record_def)
  have e: "convert_records (useShortRefName full_names) (segments_library 1) chr1_catalog fresh_session
     [unknown_record, mapped_record] =
     (ExitFailure,
      \<lparr>out = [Cout ''ERROR, Could not find chrUn in the reference repository.''],
       alignIndex = 0\<rparr>)"
    using unresolved_reference_exits
      [OF a b c, of "segments_library 1" fresh_session "[mapped_record]"]
    by (simp only: d)
  from a b c e show ?thesis by (intro conjI)
qed

text \<open>
  Claim C8. With \<^verbatim>\<open>-useShortRefName\<close> the map \<^verbatim>\<open>shortRefNameToFull\<close> stays empty and the
  references of the header keep their names; the lookup leaves every record as it is,
  whatever the map holds; no pass through the loop body takes the exit of line 161, the run
  does not end in one of the two exits of \<^verbatim>\<open>main\<close>, and neither error line is ever written.
  The short names reach the output through the builder: a record that is neither unmapped
  nor padded is handed to \<^verbatim>\<open>SAMAlignmentsToCandidates\<close> as it was read, reference name
  included, and the candidate the builder returns for it is printed with the target name
  the builder gave it; every candidate printed in a run is of that kind; and the index
  handed to the builder has exactly the names of the header's references as keys, each
  mapped to a position that carries the name.
\<close>

theorem short_names_skip_resolution:
  assumes "useShortRefName opts"
  shows "resolve_names (useShortRefName opts) refs hdr = Inr (Map.empty, hdr) \<and>
         lookup_reference (useShortRefName opts) m r = Some r \<and>
         process_record (useShortRefName opts) lib cat r =
           (if rName r = ''*'' then Continue [] else convert_alignment lib cat r) \<and>
         process_record (useShortRefName opts) lib cat r \<noteq> Exit msg \<and>
         main opts lib refs header alignments =
           (if length refs \<noteq> length (RearrangeReferences lib refs header)
            then (AssertionFailed, \<lparr>out = [], alignIndex = 0\<rparr>)
            else convert_records True lib
                   (tables refs Map.empty (RearrangeReferences lib refs header))
                   \<lparr>out = (if printHeader opts then [PrintHeader] else []), alignIndex = 0\<rparr>
                   alignments) \<and>
         fst (main opts lib refs header alignments) \<noteq> ExitFailure \<and>
         Cout (reference_not_found_error name) \<notin>
           set (out (snd (main opts lib refs header alignments))) \<and>
         Cout (duplicate_reference_error name) \<notin>
           set (out (snd (main opts lib refs header alignments))) \<and>
         (rName r \<noteq> ''*'' \<and> CHR ''P'' \<notin> set (cigar r) \<and>
          SAMAlignmentsToCandidates lib r (references cat) (refNameToIndex cat) False False = [c]
          \<longrightarrow>
            convert_records (useShortRefName opts) lib cat s (r # rs) =
              convert_records (useShortRefName opts) lib cat
                (s\<lparr>out := out s @ [PrintFromSAM (finish_alignment lib r c)],
                   alignIndex := Suc (alignIndex s)\<rparr>) rs \<and>
            tName (finish_alignment lib r c) = tName c) \<and>
         (PrintFromSAM a \<in> set (out (snd (main opts lib refs header alignments))) \<longrightarrow>
            (\<exists>r'\<in>set alignments. \<exists>c'.
               SAMAlignmentsToCandidates lib r' refs
                 (index_names (length refs) (RearrangeReferences lib refs header))
                 False False = [c'] \<and>
               a = finish_alignment lib r' c' \<and> tName a = tName c')) \<and>
         (length refs = length hdr \<longrightarrow>
            dom (refNameToIndex (tables refs Map.empty hdr)) = sequenceName ` set hdr \<and>
            (\<forall>h\<in>set hdr. \<exists>j<length hdr. sequenceName (hdr ! j) = sequenceName h \<and>
               refNameToIndex (tables refs Map.empty hdr) (sequenceName h) = Some j))"
proof (intro conjI)
  show "resolve_names (useShortRefName opts) refs hdr = Inr (Map.empty, hdr)"
    using assms by (simp add: resolve_names_def)
  show "lookup_reference (useShortRefName opts) m r = Some r"
    using assms by (simp add: lookup_reference_def)
  show "process_record (useShortRefName opts) lib cat r =
           (if rName r = ''*'' then Continue [] else convert_alignment lib cat r)"
    using assms by (simp add: process_record_def lookup_reference_def)
  show "process_record (useShortRefName opts) lib cat r \<noteq> Exit msg"
    using assms process_record_short_not_Exit by simp
  show "main opts lib refs header alignments =
           (if length refs \<noteq> length (RearrangeReferences lib refs header)
            then (AssertionFailed, \<lparr>out = [], alignIndex = 0\<rparr>)
            else convert_records True lib
                   (tables refs Map.empty (RearrangeReferences lib refs header))
                   \<lparr>out = (if printHeader opts then [PrintHeader] else []), alignIndex = 0\<rparr>
                   alignments)"
    by (rule main_short_names [OF assms])
  show "fst (main opts lib refs header alignments) \<noteq> ExitFailure"
    by (rule main_short_names_status [OF assms])
  show "Cout (reference_not_found_error name) \<notin>
          set (out (snd (main opts lib refs header alignments)))"
    using main_short_names_lines [OF assms] warnings_are_not_errors [of name] by metis
  show "Cout (duplicate_reference_error name) \<notin>
          set (out (snd (main opts lib refs header alignments)))"
    using main_short_names_lines [OF assms] warnings_are_not_errors [of name] by metis
  show "rName r \<noteq> ''*'' \<and> CHR ''P'' \<notin> set (cigar r) \<and>
        SAMAlignmentsToCandidates lib r (references cat) (refNameToIndex cat) False False = [c]
        \<longrightarrow>
          convert_records (useShortRefName opts) lib cat s (r # rs) =
            convert_records (useShortRefName opts) lib cat
              (s\<lparr>out := out s @ [PrintFromSAM (finish_alignment lib r c)],
                 alignIndex := Suc (alignIndex s)\<rparr>) rs \<and>
          tName (finish_alignment lib r c) = tName c"
  proof (intro impI conjI)
    assume h: "rName r \<noteq> ''*'' \<and> CHR ''P'' \<notin> set (cigar r) \<and>
        SAMAlignmentsToCandidates lib r (references cat) (refNameToIndex cat) False False = [c]"
    then have "convert_records True lib cat s (r # rs) =
        convert_records True lib cat
          (s\<lparr>out := out s @ [PrintFromSAM (finish_alignment lib r c)],
             alignIndex := Suc (alignIndex s)\<rparr>) rs"
      by (intro convert_records_short_Printed) simp_all
    with assms show "convert_records (useShortRefName opts) lib cat s (r # rs) =
        convert_records (useShortRefName opts) lib cat
          (s\<lparr>out := out s @ [PrintFromSAM (finish_alignment lib r c)],
             alignIndex := Suc (alignIndex s)\<rparr>) rs"
      by simp
    show "tName (finish_alignment lib r c) = tName c"
      by (simp add: finish_alignment_def reconcile_fields_def store_stats_def Let_def)
  qed
  show "PrintFromSAM a \<in> set (out (snd (main opts lib refs header alignments))) \<longrightarrow>
          (\<exists>r'\<in>set alignments. \<exists>c'.
             SAMAlignmentsToCandidates lib r' refs
               (index_names (length refs) (RearrangeReferences lib refs header))
               False False = [c'] \<and>
             a = finish_alignment lib r' c' \<and> tName a = tName c')"
    using main_short_names_Printed [OF assms] by blast
  show "length refs = length hdr \<longrightarrow>
          dom (refNameToIndex (tables refs Map.empty hdr)) = sequenceName ` set hdr \<and>
          (\<forall>h\<in>set hdr. \<exists>j<length hdr. sequenceName (hdr ! j) = sequenceName h \<and>
             refNameToIndex (tables refs Map.empty hdr) (sequenceName h) = Some j)"
    using index_names_dom [of hdr] index_names_keys [of _ hdr] by (simp add: tables_def)
qed

theorem short_names_skip_resolution_witness:
  "useShortRefName short_names \<and>
   resolve_names (useShortRefName short_names) [chr1] [sq ''chr1'' 10] =
     Inr (Map.empty, [sq ''chr1'' 10]) \<and>
   lookup_reference (useShortRefName short_names) (shortRefNameToFull chr1_catalog) unknown_record =
     Some unknown_record \<and>
   process_record (useShortRefName short_names) (segments_library 1) chr1_catalog unknown_record \<noteq>
     Exit (reference_not_found_error ''chrUn'') \<and>
   fst (main short_names (segments_library 1) [chr1] [sq ''chr1'' 10] [unknown_record]) \<noteq>
     ExitFailure \<and>
   Cout (reference_not_found_error ''chrUn'') \<notin>
     set (out (snd (main short_names (segments_library 1) [chr1] [sq ''chr1'' 10] [unknown_record]))) \<and>
   Cout (duplicate_reference_error ''chrUn'') \<notin>
     set (out (snd (main short_names (segments_library 1) [chr1] [sq ''chr1'' 10] [unknown_record]))) \<and>
   rName mapped_record \<noteq> ''*'' \<and> CHR ''P'' \<notin> set (cigar mapped_record) \<and>
   SAMAlignmentsToCandidates (segments_library 1) mapped_record (references chr1_short_catalog)
     (refNameToIndex chr1_short_catalog) False False =
     [segment mapped_record [chr1] [''chr1'' \<mapsto> 0] False] \<and>
   convert_records (useShortRefName short_names) (segments_library 1) chr1_short_catalog
     fresh_session [mapped_record] =
     convert_records (useShortRefName short_names) (segments_library 1) chr1_short_catalog
       (fresh_session\<lparr>out := out fresh_session @
           [PrintFromSAM (finish_alignment (segments_library 1) mapped_record
              (segment mapped_record [chr1] [''chr1'' \<mapsto> 0] False))],
          alignIndex := Suc (alignIndex fresh_session)\<rparr>) [] \<and>
   tName (finish_alignment (segments_library 1) mapped_record
            (segment mapped_record [chr1] [''chr1'' \<mapsto> 0] False)) =
     tName (segment mapped_record [chr1] [''chr1'' \<mapsto> 0] False) \<and>
   PrintFromSAM mapped_row \<in>
     set (out (snd (main short_names (segments_library 1) [chr1] [sq ''chr1'' 10] [mapped_record]))) \<and>
   (\<exists>r'\<in>set [mapped_record]. \<exists>c'.
      SAMAlignmentsToCandidates (segments_library 1) r' [chr1]
        (index_names (length [chr1])
           (RearrangeReferences (segments_library 1) [chr1] [sq ''chr1'' 10]))
        False False = [c'] \<and>
      mapped_row = finish_alignment (segments_library 1) r' c' \<and> tName mapped_row = tName c') \<and>
   rName mapped_record = ''chr1'' \<and> tName mapped_row = ''chr1'' \<and>
   length [chr1] = length [sq ''chr1'' 10] \<and>
   dom (refNameToIndex (tables [chr1] Map.empty [sq ''chr1'' 10])) =
     sequenceName ` set [sq ''chr1'' 10] \<and>
   (\<exists>j<length [sq ''chr1'' 10].
      sequenceName ([sq ''chr1'' 10] ! j) = sequenceName (sq ''chr1'' 10) \<and>
      refNameToIndex (tables [chr1] Map.empty [sq ''chr1'' 10]) (sequenceName (sq ''chr1'' 10)) =
        Some j)"
proof -
  have h: "useShortRefName short_names"
    by (simp add: short_names_def)
  have s1: "rName mapped_record \<noteq> ''*''"
    by (simp add: mapped_record_def)
  have s2: "CHR ''P'' \<notin> set (cigar mapped_record)"
    by (simp add: mapped_record_def)
  have s3: "SAMAlignmentsToCandidates (segments_library 1) mapped_record
      (references chr1_short_catalog) (refNameToIndex chr1_short_catalog) False False =
      [segment mapped_record [chr1] [''chr1'' \<mapsto> 0] False]"
    by (simp add: segments_library_def chr1_short_catalog_def)
  have p: "PrintFromSAM mapped_row \<in>
     set (out (snd (main short_names (segments_library 1) [chr1] [sq ''chr1'' 10] [mapped_record])))"
    by (subst run_mapped) simp
  have n1: "rName mapped_record = ''chr1''"
    by (simp add: mapped_record_def)
  have n2: "tName mapped_row = ''chr1''"
    by (simp add: mapped_row_def)
  have l: "length [chr1] = length [sq ''chr1'' 10]"
    by simp
  have i: "sq ''chr1'' 10 \<in> set [sq ''chr1'' 10]"
    by simp
  note A = short_names_skip_resolution [OF h, where refs = "[chr1]" and hdr = "[sq ''chr1'' 10]"
      and header = "[sq ''chr1'' 10]" and m = "shortRefNameToFull chr1_catalog"
      and r = unknown_record and lib = "segments_library 1" and cat = chr1_catalog
      and msg = "reference_not_found_error ''chrUn''" and name = "''chrUn''"
      and alignments = "[unknown_record]"]
  note B = short_names_skip_resolution [OF h, where refs = "[chr1]" and hdr = "[sq ''chr1'' 10]"
      and header = "[sq ''chr1'' 10]" and r = mapped_record and lib = "segments_library 1"
      and cat = chr1_short_catalog and alignments = "[mapped_record]"
      and c = "segment mapped_record [chr1] [''chr1'' \<mapsto> 0] False"
      and s = fresh_session and rs = "[]" and a = mapped_row]
  from A have a1: "resolve_names (useShortRefName short_names) [chr1] [sq ''chr1'' 10] =
     Inr (Map.empty, [sq ''chr1'' 10])" by blast
  from A have a2: "lookup_reference (useShortRefName short_names)
     (shortRefNameToFull chr1_catalog) unknown_record = Some unknown_record" by blast
  from A have a3: "process_record (useShortRefName short_names) (segments_library 1)
     chr1_catalog unknown_record \<noteq> Exit (reference_not_found_error ''chrUn'')" by blast
  from A have a4: "fst (main short_names (segments_library 1) [chr1] [sq ''chr1'' 10]
     [unknown_record]) \<noteq> ExitFailure" by blast
  from A have a5: "Cout (reference_not_found_error ''chrUn'') \<notin>
     set (out (snd (main short_names (segments_library 1) [chr1] [sq ''chr1'' 10]
       [unknown_record])))" by blast
  from A have a6: "Cout (duplicate_reference_error ''chrUn'') \<notin>
     set (out (snd (main short_names (segments_library 1) [chr1] [sq ''chr1'' 10]
       [unknown_record])))" by blast
  from B s1 s2 s3 have b1: "convert_records (useShortRefName short_names) (segments_library 1)
     chr1_short_catalog fresh_session [mapped_record] =
     convert_records (useShortRefName short_names) (segments_library 1) chr1_short_catalog
       (fresh_session\<lparr>out := out fresh_session @
           [PrintFromSAM (finish_alignment (segments_library 1) mapped_record
              (segment mapped_record [chr1] [''chr1'' \<mapsto> 0] False))],
          alignIndex := Suc (alignIndex fresh_session)\<rparr>) []" by blast
  from B s1 s2 s3 have b2: "tName (finish_alignment (segments_library 1) mapped_record
            (segment mapped_record [chr1] [''chr1'' \<mapsto> 0] False)) =
     tName (segment mapped_record [chr1] [''chr1'' \<mapsto> 0] False)" by blast
  from B p have b3: "\<exists>r'\<in>set [mapped_record]. \<exists>c'.
      SAMAlignmentsToCandidates (segments_library 1) r' [chr1]
        (index_names (length [chr1])
           (RearrangeReferences (segments_library 1) [chr1] [sq ''chr1'' 10]))
        False False = [c'] \<and>
      mapped_row = finish_alignment (segments_library 1) r' c' \<and> tName mapped_row = tName c'"
    by blast
  from B l have b4: "dom (refNameToIndex (tables [chr1] Map.empty [sq ''chr1'' 10])) =
     sequenceName ` set [sq ''chr1'' 10]" by blast
  from B l i have b5: "\<exists>j<length [sq ''chr1'' 10].
      sequenceName ([sq ''chr1'' 10] ! j) = sequenceName (sq ''chr1'' 10) \<and>
      refNameToIndex (tables [chr1] Map.empty [sq ''chr1'' 10]) (sequenceName (sq ''chr1'' 10)) =
        Some j" by blast
  from h a1 a2 a3 a4 a5 a6 s1 s2 s3 b1 b2 p b3 n1 n2 l b4 b5 show ?thesis by (intro conjI)
qed




text \<open>
  Claim C10. For a record that is neither unmapped nor padded and has passed the lookup,
  the only test on \<^verbatim>\<open>convertedAlignments\<close> is \<^verbatim>\<open>size() > 1\<close>; when the conversion
  returns no candidate, the loop body reads element 0 of the empty vector.
\<close>

theorem empty_conversion_reads_out_of_range:
  assumes "rName r \<noteq> ''*''"
      and "lookup_reference useShort (shortRefNameToFull cat) r = Some sam"
      and "CHR ''P'' \<notin> set (cigar r)"
      and "SAMAlignmentsToCandidates lib sam (references cat) (refNameToIndex cat) False False = []"
  shows "process_record useShort lib cat r = Undefined \<and>
         convert_records useShort lib cat s (r # rs) = (OutOfRange, s)"
proof -
  from assms(2) have "cigar sam = cigar r" by (simp add: lookup_reference_fields)
  with assms have "process_record useShort lib cat r = Undefined"
    by (simp add: process_record_def convert_alignment_def)
  then show ?thesis by simp
qed

theorem empty_conversion_reads_out_of_range_witness:
  "rName mapped_record \<noteq> ''*'' \<and>
   lookup_reference True (shortRefNameToFull chr1_short_catalog) mapped_record = Some mapped_record \<and>
   CHR ''P'' \<notin> set (cigar mapped_record) \<and>
   SAMAlignmentsToCandidates (segments_library 0) mapped_record (references chr1_short_catalog)
     (refNameToIndex chr1_short_catalog) False False = [] \<and>
   process_record True (segments_library 0) chr1_short_catalog mapped_record = Undefined \<and>
   convert_records True (segments_library 0) chr1_short_catalog fresh_session [mapped_record, mapped_record]
     = (OutOfRange, fresh_session)"
proof -
  have a: "rName mapped_record \<noteq> ''*''"
    by (simp add: mapped_record_def)
  have b: "lookup_reference True (shortRefNameToFull chr1_short_catalog) mapped_record
             = Some mapped_record"
    by (simp add: lookup_reference_def)
  have c: "CHR ''P'' \<notin> set (cigar mapped_record)"
    by (simp add: mapped_record_def)
  have d: "SAMAlignmentsToCandidates (segments_library 0) mapped_record
             (references chr1_short_catalog) (refNameToIndex chr1_short_catalog) False False = []"
    by (simp add: segments_library_def)
  from a b c d
    empty_conversion_reads_out_of_range [OF a b c d, of fresh_session "[mapped_record]"]
  show ?thesis by (intro conjI) simp_all
qed

end
